theory Spec2Isabelle
  imports Main "HOL-Library.Sublist"
begin

section \<open>Data model of \<^verbatim>\<open>RexIntegration.tsx\<close>\<close>

text \<open>
  The component imports the types \<^verbatim>\<open>MaintenanceWindow\<close>, \<^verbatim>\<open>ReturnOfExperience\<close> and
  \<^verbatim>\<open>Anomaly\<close> from \<^verbatim>\<open>@/types/anomaly\<close>. The records below carry the fields the component
  reads or writes. Two fields are renamed because their source names clash: \<^verbatim>\<open>id\<close> (the
  identity function of HOL) becomes \<open>rex_id\<close> and \<open>window_id\<close>, and \<^verbatim>\<open>status\<close>, which
  both the window and the anomaly have, becomes \<open>window_status\<close> and \<open>anomaly_status\<close>.
  The component reads the schedule of a window through \<^verbatim>\<open>new Date(...)\<close> only, so the two
  schedule fields hold the dates so made.
\<close>

text \<open>
  A JavaScript \<^verbatim>\<open>Date\<close>: either a time value in milliseconds since the epoch, or the
  invalid date, whose time value is NaN.
\<close>

datatype js_date = InvalidDate | DateAt int

text \<open>
  \<^verbatim>\<open>d1 < d2\<close> on two dates compares their time values as numbers; a comparison with
  NaN is false.
\<close>

fun date_less :: "js_date \<Rightarrow> js_date \<Rightarrow> bool" where
  "date_less (DateAt a) (DateAt b) = (a < b)"
| "date_less _ _ = False"

record Anomaly =
  anomaly_status :: string

record MaintenanceWindow =
  window_id :: "string option"
  title :: string
  scheduleStart :: js_date
  scheduleEnd :: js_date
  window_status :: string
  anomalies :: "Anomaly list option"

datatype impact = Low | Medium | High | Critical

datatype category = Technical | Procedural | Organizational | Safety | Quality

text \<open>
  The form of the dialog. Its six text fields have the same names as fields of a
  \<^verbatim>\<open>ReturnOfExperience\<close>; the form's are written with the qualifier \<open>QuickRexFormData\<close>.
\<close>

record QuickRexFormData =
  summary :: string
  rootCause :: string
  correctionAction :: string
  preventiveAction :: string
  lessonsLearned :: string
  recommendations :: string
  impact :: impact
  category :: category

record ReturnOfExperience =
  rex_id :: string
  summary :: string
  rootCause :: string
  correctionAction :: string
  preventiveAction :: string
  lessonsLearned :: string
  recommendations :: string
  attachments :: "string list"
  createdBy :: string
  createdAt :: js_date

section \<open>Strings\<close>

text \<open>
  \<^verbatim>\<open>s.includes(t)\<close>: the search string \<open>t\<close> is looked for at every start position of
  \<open>s\<close>, from the left; the empty search string is found in every string.
\<close>

fun str_includes :: "string \<Rightarrow> string \<Rightarrow> bool" where
  "str_includes [] t = (t = [])"
| "str_includes (c # s) t = (prefix t (c # s) \<or> str_includes s t)"

text \<open>
  \<^verbatim>\<open>x || ""\<close> on an optional string: \<^verbatim>\<open>undefined\<close> and the empty string are falsy, so
  both give the empty string; every other string is truthy and is returned.
\<close>

fun or_empty :: "string option \<Rightarrow> string" where
  "or_empty None = []"
| "or_empty (Some s) = (if s = [] then [] else s)"

section \<open>The records of a window\<close>

text \<open>
  \<^verbatim>\<open>rexRecords.filter((rex) => rex.summary.includes(maintenanceWindow.title) ||
     rex.id.includes(maintenanceWindow.id || ""))\<close>
\<close>

definition windowRexRecords ::
  "ReturnOfExperience list \<Rightarrow> MaintenanceWindow \<Rightarrow> ReturnOfExperience list" where
  "windowRexRecords rexRecords maintenanceWindow =
     filter (\<lambda>rex. str_includes (summary rex) (title maintenanceWindow) \<or>
                   str_includes (rex_id rex) (or_empty (window_id maintenanceWindow)))
       rexRecords"

section \<open>Resolved anomalies\<close>

text \<open>
  \<^verbatim>\<open>maintenanceWindow.anomalies?.filter((a) => a.status === "CLOSED" ||
     a.status === "TREATED") || []\<close>: without anomalies the optional call gives
  \<^verbatim>\<open>undefined\<close>, which \<^verbatim>\<open>|| []\<close> replaces by the empty array; an array, even an empty
  one, is truthy and is kept.
\<close>

definition resolvedAnomalies :: "MaintenanceWindow \<Rightarrow> Anomaly list" where
  "resolvedAnomalies maintenanceWindow =
     (case anomalies maintenanceWindow of
        None \<Rightarrow> []
      | Some as \<Rightarrow>
          filter (\<lambda>a. anomaly_status a = ''CLOSED'' \<or> anomaly_status a = ''TREATED'') as)"

text \<open>The number the dialog shows: \<^verbatim>\<open>resolvedAnomalies.length\<close>.\<close>

definition resolvedAnomalyCount :: "MaintenanceWindow \<Rightarrow> nat" where
  "resolvedAnomalyCount maintenanceWindow = length (resolvedAnomalies maintenanceWindow)"

section \<open>The last record's date\<close>

text \<open>
  \<^verbatim>\<open>windowRexRecords.length > 0 ? windowRexRecords[windowRexRecords.length - 1].createdAt
     : undefined\<close>
\<close>

definition lastRexDate :: "ReturnOfExperience list \<Rightarrow> js_date option" where
  "lastRexDate recs =
     (if length recs > 0 then Some (createdAt (recs ! (length recs - 1))) else None)"

section \<open>The opportunity banner\<close>

text \<open>
  \<^verbatim>\<open>RexOpportunityBanner\<close> returns \<^verbatim>\<open>null\<close> or a card. The card is modelled by the one
  value it computes, the number of anomalies it displays. The argument \<open>now\<close> is the
  time value of \<^verbatim>\<open>new Date()\<close>, which is always a valid date.
\<close>

definition RexOpportunityBanner :: "MaintenanceWindow \<Rightarrow> int \<Rightarrow> nat option" where
  "RexOpportunityBanner maintenanceWindow now =
     (let isCompleted =
            (window_status maintenanceWindow = ''completed'' \<or>
             date_less (scheduleEnd maintenanceWindow) (DateAt now));
          hasSignificantAnomalies =
            (case anomalies maintenanceWindow of None \<Rightarrow> False | Some as \<Rightarrow> length as > 0)
      in if \<not> isCompleted \<or> \<not> hasSignificantAnomalies then None
         else (case anomalies maintenanceWindow of None \<Rightarrow> None | Some as \<Rightarrow> Some (length as)))"

text \<open>The banner is shown: the specification's \<^verbatim>\<open>isOpportunity\<close>.\<close>

definition isOpportunity :: "MaintenanceWindow \<Rightarrow> int \<Rightarrow> bool" where
  "isOpportunity maintenanceWindow now = (RexOpportunityBanner maintenanceWindow now \<noteq> None)"

section \<open>The quick REX dialog\<close>

text \<open>
  The template literal \<^verbatim>\<open>`rex_${Date.now()}`\<close> renders an integral number in decimal, with
  a minus sign when it is negative.
\<close>

fun nat_to_string :: "nat \<Rightarrow> string" where
  "nat_to_string n =
     (if n < 10 then [''0123456789'' ! n]
      else nat_to_string (n div 10) @ [''0123456789'' ! (n mod 10)])"

declare nat_to_string.simps [simp del]

definition number_to_string :: "int \<Rightarrow> string" where
  "number_to_string i =
     (if i < 0 then CHR ''-'' # nat_to_string (nat (- i)) else nat_to_string (nat i))"

text \<open>The initial form, which is also the form after a reset.\<close>

definition initialFormData :: QuickRexFormData where
  "initialFormData =
     \<lparr> QuickRexFormData.summary = [], QuickRexFormData.rootCause = [],
       QuickRexFormData.correctionAction = [], QuickRexFormData.preventiveAction = [],
       QuickRexFormData.lessonsLearned = [], QuickRexFormData.recommendations = [],
       impact = Medium, category = Technical \<rparr>"

text \<open>
  The state of one dialog (its three \<^verbatim>\<open>useState\<close> cells), and what a handler does to
  the world, in program order: state setters, toasts, the call of the callback and
  navigation.
\<close>

record dialog_state =
  isOpen :: bool
  isSubmitting :: bool
  formData :: QuickRexFormData

datatype effect =
    SetIsOpen bool
  | SetIsSubmitting bool
  | SetFormData QuickRexFormData
  | ToastError string
  | ToastSuccess string
  | Invoke ReturnOfExperience
  | Navigate string

text \<open>The callback returns or throws; the handler catches what it throws.\<close>

datatype outcome = Returns | Throws

type_synonym callback = "ReturnOfExperience \<Rightarrow> outcome"

fun apply_effect :: "dialog_state \<Rightarrow> effect \<Rightarrow> dialog_state" where
  "apply_effect st (SetIsOpen b) = st\<lparr>isOpen := b\<rparr>"
| "apply_effect st (SetIsSubmitting b) = st\<lparr>isSubmitting := b\<rparr>"
| "apply_effect st (SetFormData f) = st\<lparr>formData := f\<rparr>"
| "apply_effect st _ = st"

text \<open>
  The record of lines 103 to 114. \<open>t_id\<close> is what \<^verbatim>\<open>Date.now()\<close> returns and
  \<open>t_created\<close> the time value of the later \<^verbatim>\<open>new Date()\<close>: two readings of the clock.
\<close>

definition newRex :: "QuickRexFormData \<Rightarrow> int \<Rightarrow> int \<Rightarrow> ReturnOfExperience" where
  "newRex fd t_id t_created =
     \<lparr> rex_id = ''rex_'' @ number_to_string t_id,
       summary = QuickRexFormData.summary fd,
       rootCause = QuickRexFormData.rootCause fd,
       correctionAction = QuickRexFormData.correctionAction fd,
       preventiveAction = QuickRexFormData.preventiveAction fd,
       lessonsLearned = QuickRexFormData.lessonsLearned fd,
       recommendations = QuickRexFormData.recommendations fd,
       attachments = [],
       createdBy = ''Current User'',
       createdAt = DateAt t_created \<rparr>"

text \<open>
  \<^verbatim>\<open>handleSubmit\<close>, as the effects it performs. A string is falsy exactly when it is
  empty. \<^verbatim>\<open>onRexCreated?.(newRex)\<close> calls the callback only when there is one; when the
  call throws, control passes to the \<^verbatim>\<open>catch\<close> block; the \<^verbatim>\<open>finally\<close> block runs on
  both paths.
\<close>

definition validation_message :: string where
  "validation_message = ''Please fill in the summary and root cause analysis''"

text \<open>A submission is blocked: the validation toast is all that happens.\<close>

definition validation_error :: "effect list \<Rightarrow> bool" where
  "validation_error effs = (effs = [ToastError validation_message])"

definition after_create :: "effect list" where
  "after_create =
     [ToastSuccess ''REX created successfully!'', SetIsOpen False, SetFormData initialFormData]"

definition handleSubmit_effects ::
  "callback option \<Rightarrow> int \<Rightarrow> int \<Rightarrow> QuickRexFormData \<Rightarrow> effect list" where
  "handleSubmit_effects onRexCreated t_id t_created fd =
     (if QuickRexFormData.summary fd = [] \<or> QuickRexFormData.rootCause fd = [] then
        [ToastError validation_message]
      else
        [SetIsSubmitting True] @
        (case onRexCreated of
           None \<Rightarrow> after_create
         | Some cb \<Rightarrow>
             Invoke (newRex fd t_id t_created) #
             (case cb (newRex fd t_id t_created) of
                Returns \<Rightarrow> after_create
              | Throws \<Rightarrow> [ToastError ''Failed to create REX''])) @
        [SetIsSubmitting False])"

text \<open>The handler on a dialog: the state after its effects, and the effects.\<close>

definition handleSubmit ::
  "callback option \<Rightarrow> int \<Rightarrow> int \<Rightarrow> dialog_state \<Rightarrow> dialog_state \<times> effect list" where
  "handleSubmit onRexCreated t_id t_created st =
     (let effs = handleSubmit_effects onRexCreated t_id t_created (formData st)
      in (foldl apply_effect st effs, effs))"

text \<open>
  \<^verbatim>\<open>navigate("/rex?source=maintenance&windowId=" + maintenanceWindow.id)\<close>: an absent id
  is concatenated as the text \<^verbatim>\<open>undefined\<close>.
\<close>

definition handleCreateFullRex :: "MaintenanceWindow \<Rightarrow> effect list" where
  "handleCreateFullRex maintenanceWindow =
     [Navigate (''/rex?source=maintenance&windowId='' @
        (case window_id maintenanceWindow of None \<Rightarrow> ''undefined'' | Some i \<Rightarrow> i))]"

section \<open>The handlers of a dialog\<close>

text \<open>
  What the user can do in a dialog: open or close it (\<^verbatim>\<open>onOpenChange={setIsOpen}\<close>),
  cancel, ask for the full REX page, submit, and edit one of the six inputs the dialog
  renders. The submit button is disabled while \<^verbatim>\<open>isSubmitting\<close> holds.
\<close>

datatype action =
    OpenChange bool
  | Cancel
  | CreateFullRex
  | Submit int int
  | ImpactChange impact
  | CategoryChange category
  | SummaryChange string
  | RootCauseChange string
  | CorrectionActionChange string
  | LessonsLearnedChange string

fun dialog_effects ::
  "MaintenanceWindow \<Rightarrow> callback option \<Rightarrow> dialog_state \<Rightarrow> action \<Rightarrow> effect list" where
  "dialog_effects w cb st (OpenChange b) = [SetIsOpen b]"
| "dialog_effects w cb st Cancel = [SetIsOpen False]"
| "dialog_effects w cb st CreateFullRex = handleCreateFullRex w"
| "dialog_effects w cb st (Submit t_id t_created) =
     (if isSubmitting st then [] else handleSubmit_effects cb t_id t_created (formData st))"
| "dialog_effects w cb st (ImpactChange v) = [SetFormData ((formData st)\<lparr>impact := v\<rparr>)]"
| "dialog_effects w cb st (CategoryChange v) = [SetFormData ((formData st)\<lparr>category := v\<rparr>)]"
| "dialog_effects w cb st (SummaryChange v) =
     [SetFormData ((formData st)\<lparr>QuickRexFormData.summary := v\<rparr>)]"
| "dialog_effects w cb st (RootCauseChange v) =
     [SetFormData ((formData st)\<lparr>QuickRexFormData.rootCause := v\<rparr>)]"
| "dialog_effects w cb st (CorrectionActionChange v) =
     [SetFormData ((formData st)\<lparr>QuickRexFormData.correctionAction := v\<rparr>)]"
| "dialog_effects w cb st (LessonsLearnedChange v) =
     [SetFormData ((formData st)\<lparr>QuickRexFormData.lessonsLearned := v\<rparr>)]"

definition dialog_step ::
  "MaintenanceWindow \<Rightarrow> callback option \<Rightarrow> dialog_state \<Rightarrow> action \<Rightarrow> dialog_state" where
  "dialog_step w cb st a = foldl apply_effect st (dialog_effects w cb st a)"

definition initial_dialog :: dialog_state where
  "initial_dialog = \<lparr> isOpen = False, isSubmitting = False, formData = initialFormData \<rparr>"

section \<open>The component \<^verbatim>\<open>RexIntegration\<close>\<close>

text \<open>
  Its state: the cell \<^verbatim>\<open>const [rexRecords] = useState<ReturnOfExperience[]>([])\<close>, of
  which the component keeps no setter, and the states of the two dialogs it can render:
  the one inside the banner, which gets no callback, and the one under the summary card,
  which gets the component's \<^verbatim>\<open>onRexCreated\<close>.
\<close>

record integration_state =
  rexRecords :: "ReturnOfExperience list"
  bannerDialog :: dialog_state
  actionsDialog :: dialog_state

definition initial_state :: integration_state where
  "initial_state =
     \<lparr> rexRecords = [], bannerDialog = initial_dialog, actionsDialog = initial_dialog \<rparr>"

text \<open>
  What can happen to the component: a handler of one of the two dialogs runs, the button
  of the summary card navigates, or a dialog leaves the tree (the banner returns
  \<^verbatim>\<open>null\<close>, or \<^verbatim>\<open>isCompleted\<close> is false) and loses its state, to start afresh when it is
  rendered again.
\<close>

datatype integration_action =
    InBanner action
  | InActions action
  | ViewAllRex
  | UnmountBanner
  | UnmountActions

fun integration_step ::
  "MaintenanceWindow \<Rightarrow> callback option \<Rightarrow> integration_state \<Rightarrow> integration_action \<Rightarrow>
   integration_state" where
  "integration_step w onRexCreated s (InBanner a) =
     s\<lparr>bannerDialog := dialog_step w None (bannerDialog s) a\<rparr>"
| "integration_step w onRexCreated s (InActions a) =
     s\<lparr>actionsDialog := dialog_step w onRexCreated (actionsDialog s) a\<rparr>"
| "integration_step w onRexCreated s ViewAllRex = s"
| "integration_step w onRexCreated s UnmountBanner = s\<lparr>bannerDialog := initial_dialog\<rparr>"
| "integration_step w onRexCreated s UnmountActions = s\<lparr>actionsDialog := initial_dialog\<rparr>"

text \<open>
  The states the component can be in: the initial one, and each state such a step
  leaves, whatever the properties of that render are.
\<close>

inductive reachable :: "integration_state \<Rightarrow> bool" where
  reachable_init: "reachable initial_state"
| reachable_step: "reachable s \<Longrightarrow> reachable (integration_step w onRexCreated s a)"

text \<open>
  What a render computes: the banner, the two properties handed to the summary card, and
  whether the dialog under the card is rendered (\<^verbatim>\<open>isCompleted = false\<close> by default).
\<close>

record integration_view =
  banner :: "nat option"
  rexCount :: nat
  summaryLastRexDate :: "js_date option"
  showsDialog :: bool

definition RexIntegration ::
  "MaintenanceWindow \<Rightarrow> bool option \<Rightarrow> int \<Rightarrow> integration_state \<Rightarrow> integration_view" where
  "RexIntegration maintenanceWindow isCompleted now s =
     \<lparr> banner = RexOpportunityBanner maintenanceWindow now,
       rexCount = length (windowRexRecords (rexRecords s) maintenanceWindow),
       summaryLastRexDate = lastRexDate (windowRexRecords (rexRecords s) maintenanceWindow),
       showsDialog = (case isCompleted of None \<Rightarrow> False | Some b \<Rightarrow> b) \<rparr>"

section \<open>The filter on a store\<close>

text \<open>
  Arrays and objects of JavaScript are references. To speak about what the filter leaves
  untouched, the record array and the window live in a store, a list of cells addressed by
  position. \<^verbatim>\<open>Array.prototype.filter\<close> reads the array it is called on, calls the
  predicate, which here only reads fields, and returns a newly allocated array. A
  reference that does not hold a value of the expected kind is a type error, \<open>None\<close>.
\<close>

datatype cell = RexArray "ReturnOfExperience list" | WindowObject MaintenanceWindow

type_synonym store = "cell list"

definition windowRexRecords_store :: "store \<Rightarrow> nat \<Rightarrow> nat \<Rightarrow> (store \<times> nat) option" where
  "windowRexRecords_store h recs_ref window_ref =
     (if recs_ref < length h \<and> window_ref < length h then
        (case (h ! recs_ref, h ! window_ref) of
           (RexArray recs, WindowObject w) \<Rightarrow>
             Some (h @ [RexArray (windowRexRecords recs w)], length h)
         | _ \<Rightarrow> None)
      else None)"

section \<open>Reading a list of effects\<close>

text \<open>The records the callback was called with, in order.\<close>

fun invocations :: "effect list \<Rightarrow> ReturnOfExperience list" where
  "invocations [] = []"
| "invocations (Invoke r # effs) = r # invocations effs"
| "invocations (e # effs) = invocations effs"

text \<open>The success toast of \<^verbatim>\<open>handleSubmit\<close> was shown.\<close>

definition succeeded :: "effect list \<Rightarrow> bool" where
  "succeeded effs = (ToastSuccess ''REX created successfully!'' \<in> set effs)"

section \<open>Concrete inputs\<close>

text \<open>Windows, records and forms on which the theorems below are evaluated.\<close>

definition closed_open_treated :: "Anomaly list" where
  "closed_open_treated =
     [\<lparr>anomaly_status = ''CLOSED''\<rparr>, \<lparr>anomaly_status = ''OPEN''\<rparr>,
      \<lparr>anomaly_status = ''TREATED''\<rparr>]"

definition pump_window :: MaintenanceWindow where
  "pump_window =
     \<lparr> window_id = Some ''42'', title = ''Pump overhaul'', scheduleStart = DateAt 1000,
       scheduleEnd = DateAt 2000, window_status = ''completed'',
       anomalies = Some closed_open_treated \<rparr>"

definition unnamed_window :: MaintenanceWindow where
  "unnamed_window = pump_window\<lparr>window_id := None\<rparr>"

definition filled_form :: QuickRexFormData where
  "filled_form =
     initialFormData\<lparr>QuickRexFormData.summary := ''S'', QuickRexFormData.rootCause := ''R''\<rparr>"

definition blank_form :: QuickRexFormData where
  "blank_form =
     initialFormData\<lparr>QuickRexFormData.summary := '' '', QuickRexFormData.rootCause := ''X''\<rparr>"

definition valve_rex :: ReturnOfExperience where
  "valve_rex = newRex (filled_form\<lparr>QuickRexFormData.summary := ''Valve''\<rparr>) 7 9"

definition late_rex :: ReturnOfExperience where
  "late_rex = newRex (filled_form\<lparr>QuickRexFormData.summary := ''Pump overhaul done''\<rparr>) 8 3"

definition open_dialog :: "QuickRexFormData \<Rightarrow> dialog_state" where
  "open_dialog fd = \<lparr> isOpen = True, isSubmitting = False, formData = fd \<rparr>"

definition accepting :: callback where
  "accepting rex = Returns"

text \<open>
  The component after the user has opened the dialog under the summary card, typed a
  summary and a root cause, and submitted; and the state just before the submission.
\<close>

definition before_submission :: integration_state where
  "before_submission =
     foldl (integration_step pump_window (Some accepting)) initial_state
       [InActions (OpenChange True), InActions (SummaryChange ''Pump overhaul''),
        InActions (RootCauseChange ''R'')]"

definition after_submission :: integration_state where
  "after_submission =
     integration_step pump_window (Some accepting) before_submission (InActions (Submit 5 6))"

text \<open>A store with the two records at address 0 and the window at address 1.\<close>

definition two_record_store :: store where
  "two_record_store = [RexArray [late_rex, valve_rex], WindowObject pump_window]"

section \<open>Facts about strings\<close>

lemma includes_sublist: "str_includes s t = sublist t s"
  by (induction s) (simp_all add: sublist_Cons_right)

lemma or_empty_case: "or_empty x = (case x of None \<Rightarrow> [] | Some s \<Rightarrow> s)"
  by (cases x) simp_all

lemma windowRexRecords_no_id:
  "or_empty (window_id W) = [] \<Longrightarrow> windowRexRecords records W = records"
  by (simp add: windowRexRecords_def includes_sublist)

section \<open>Facts about the concrete inputs\<close>

lemma valve_rex_fields:
  "rex_id valve_rex = ''rex_7''" "summary valve_rex = ''Valve''"
  "createdAt valve_rex = DateAt 9"
  by (simp_all add: valve_rex_def newRex_def number_to_string_def nat_to_string.simps
      filled_form_def initialFormData_def)

lemma late_rex_fields:
  "rex_id late_rex = ''rex_8''" "summary late_rex = ''Pump overhaul done''"
  "createdAt late_rex = DateAt 3"
  by (simp_all add: late_rex_def newRex_def number_to_string_def nat_to_string.simps
      filled_form_def initialFormData_def)

section \<open>Which records belong to a window\<close>

text \<open>
  Claim C1. For every list of records and every window \<open>W\<close>, the filter (the
  specification's \<^verbatim>\<open>filterByWindow\<close>) keeps a record \<open>R\<close> of the list if and only if
  the title of \<open>W\<close> is a substring of the summary of \<open>R\<close>, or the id of \<open>R\<close> contains the
  id of \<open>W\<close>, where an absent id of \<open>W\<close> counts as the empty string. The same holds for the
  one-element list. When the id of \<open>W\<close> is absent, every record of the list whose id is
  not empty is kept. Substrings are those of the library: \<open>sublist t s\<close> says that \<open>s\<close>
  is \<open>t\<close> with something before and something after it.
\<close>

theorem windowRexRecords_member:
  "(R \<in> set (windowRexRecords records W) \<longleftrightarrow>
      R \<in> set records \<and>
      (sublist (title W) (summary R) \<or>
       sublist (case window_id W of None \<Rightarrow> [] | Some i \<Rightarrow> i) (rex_id R))) \<and>
   (windowRexRecords [R] W = [R] \<longleftrightarrow>
      sublist (title W) (summary R) \<or>
      sublist (case window_id W of None \<Rightarrow> [] | Some i \<Rightarrow> i) (rex_id R)) \<and>
   (window_id W = None \<and> rex_id R \<noteq> [] \<and> R \<in> set records \<longrightarrow>
      R \<in> set (windowRexRecords records W))"
  by (auto simp: windowRexRecords_def includes_sublist or_empty_case)

text \<open>
  On the list of two records: the window without id keeps the record about the valve,
  whose id is not empty; the window with id 42 drops it and keeps the record whose summary
  contains its title.
\<close>

theorem windowRexRecords_member_witness:
  "valve_rex \<in> set (windowRexRecords [late_rex, valve_rex] unnamed_window) \<and>
   valve_rex \<notin> set (windowRexRecords [late_rex, valve_rex] pump_window) \<and>
   late_rex \<in> set (windowRexRecords [late_rex, valve_rex] pump_window)"
proof -
  have a: "window_id unnamed_window = None \<and> rex_id valve_rex \<noteq> [] \<and>
      valve_rex \<in> set [late_rex, valve_rex]"
    by (simp add: unnamed_window_def valve_rex_fields)
  have "\<not> str_includes (summary valve_rex) (title pump_window)"
    by (simp add: valve_rex_fields pump_window_def)
  moreover have "\<not> str_includes (rex_id valve_rex) ''42''"
    by (simp add: valve_rex_fields)
  ultimately have b: "\<not> (sublist (title pump_window) (summary valve_rex) \<or>
       sublist (case window_id pump_window of None \<Rightarrow> [] | Some i \<Rightarrow> i) (rex_id valve_rex))"
    by (simp add: includes_sublist pump_window_def)
  have "str_includes (summary late_rex) (title pump_window)"
    by (simp add: late_rex_fields pump_window_def)
  then have c: "sublist (title pump_window) (summary late_rex)"
    by (simp add: includes_sublist)
  show ?thesis
    using a b c windowRexRecords_member [of valve_rex "[late_rex, valve_rex]" unnamed_window]
      windowRexRecords_member [of valve_rex "[late_rex, valve_rex]" pump_window]
      windowRexRecords_member [of late_rex "[late_rex, valve_rex]" pump_window]
    by simp
qed

section \<open>When the opportunity banner is shown\<close>

lemma banner_shown:
  "RexOpportunityBanner w now \<noteq> None \<longleftrightarrow>
     (window_status w = ''completed'' \<or> date_less (scheduleEnd w) (DateAt now)) \<and>
     (\<exists>as. anomalies w = Some as \<and> as \<noteq> [])"
  by (cases "anomalies w") (auto simp: RexOpportunityBanner_def Let_def)

lemma date_less_DateAt: "date_less d (DateAt now) \<longleftrightarrow> (\<exists>t. d = DateAt t \<and> t < now)"
  by (cases d) simp_all

text \<open>
  Claim C3. For every window and current time, the banner is shown if and only if the
  status of the window is \<^verbatim>\<open>completed\<close> or its schedule end is a date earlier than the
  current time, and the anomalies of the window are present and not empty. So it is not
  shown when the anomalies are absent or empty, whatever the status and the dates are.
\<close>

theorem isOpportunity_iff:
  "(isOpportunity w now \<longleftrightarrow>
      (window_status w = ''completed'' \<or> (\<exists>t. scheduleEnd w = DateAt t \<and> t < now)) \<and>
      (\<exists>as. anomalies w = Some as \<and> as \<noteq> [])) \<and>
   (anomalies w = None \<or> anomalies w = Some [] \<longrightarrow> \<not> isOpportunity w now)"
  unfolding isOpportunity_def banner_shown date_less_DateAt by auto

text \<open>
  The completed window with three anomalies; the same window still planned, just after
  and exactly at its schedule end; and the window without anomalies or with none.
\<close>

theorem isOpportunity_iff_witness:
  "isOpportunity pump_window 0 \<and>
   isOpportunity (pump_window\<lparr>window_status := ''planned''\<rparr>) 2001 \<and>
   \<not> isOpportunity (pump_window\<lparr>window_status := ''planned''\<rparr>) 2000 \<and>
   \<not> isOpportunity (pump_window\<lparr>anomalies := None\<rparr>) 2001 \<and>
   \<not> isOpportunity (pump_window\<lparr>anomalies := Some []\<rparr>) 2001"
  using isOpportunity_iff [of pump_window 0]
    isOpportunity_iff [of "pump_window\<lparr>window_status := ''planned''\<rparr>" 2001]
    isOpportunity_iff [of "pump_window\<lparr>window_status := ''planned''\<rparr>" 2000]
    isOpportunity_iff [of "pump_window\<lparr>anomalies := None\<rparr>" 2001]
    isOpportunity_iff [of "pump_window\<lparr>anomalies := Some []\<rparr>" 2001]
  by (simp add: pump_window_def closed_open_treated_def)

section \<open>Counting resolved anomalies\<close>

text \<open>
  Claim C6. For every window the count of resolved anomalies is the number of positions
  of its anomaly list whose status is \<^verbatim>\<open>CLOSED\<close> or \<^verbatim>\<open>TREATED\<close>, and 0 when the window
  has no anomaly list; on the anomalies closed, open, treated it is 2.
\<close>

theorem resolvedAnomalyCount_counts:
  "resolvedAnomalyCount w =
     (case anomalies w of
        None \<Rightarrow> 0
      | Some as \<Rightarrow>
          card {i. i < length as \<and>
                   (anomaly_status (as ! i) = ''CLOSED'' \<or>
                    anomaly_status (as ! i) = ''TREATED'')}) \<and>
   resolvedAnomalyCount (w\<lparr>anomalies := None\<rparr>) = 0 \<and>
   resolvedAnomalyCount (w\<lparr>anomalies := Some closed_open_treated\<rparr>) = 2"
  by (simp add: resolvedAnomalyCount_def resolvedAnomalies_def length_filter_conv_card
      closed_open_treated_def split: option.split)

theorem resolvedAnomalyCount_counts_witness:
  "resolvedAnomalyCount pump_window = 2 \<and>
   resolvedAnomalyCount (pump_window\<lparr>anomalies := None\<rparr>) = 0"
  using resolvedAnomalyCount_counts [of pump_window]
  by (simp add: pump_window_def)

section \<open>The date of the last record\<close>

text \<open>
  Claim C8. On the empty sequence the last date is absent; on a sequence that is not
  empty it is the creation date of the last element in the order given. Nothing is sorted
  by time: of the two records created at 9 and at 3, whichever comes last gives the date.
\<close>

theorem lastRexDate_last:
  "lastRexDate [] = None \<and>
   lastRexDate (recs @ [r]) = Some (createdAt r) \<and>
   (recs \<noteq> [] \<longrightarrow> lastRexDate recs = Some (createdAt (last recs))) \<and>
   lastRexDate [valve_rex, late_rex] = Some (DateAt 3) \<and>
   lastRexDate [late_rex, valve_rex] = Some (DateAt 9)"
  by (simp add: lastRexDate_def last_conv_nth valve_rex_fields late_rex_fields)

theorem lastRexDate_last_witness:
  "lastRexDate [valve_rex, late_rex] = Some (createdAt late_rex) \<and>
   createdAt late_rex = DateAt 3 \<and> createdAt valve_rex = DateAt 9"
  using lastRexDate_last [of "[valve_rex, late_rex]" late_rex]
  by (simp add: valve_rex_fields late_rex_fields)

section \<open>Facts about the submit handler\<close>

lemma handleSubmit_effects_blocked:
  "QuickRexFormData.summary fd = [] \<or> QuickRexFormData.rootCause fd = [] \<Longrightarrow>
   handleSubmit_effects cb t1 t2 fd = [ToastError validation_message]"
  by (simp add: handleSubmit_effects_def)

lemma handleSubmit_effects_valid:
  "QuickRexFormData.summary fd \<noteq> [] \<Longrightarrow> QuickRexFormData.rootCause fd \<noteq> [] \<Longrightarrow>
   handleSubmit_effects ocb t1 t2 fd =
     SetIsSubmitting True #
     (case ocb of
        None \<Rightarrow> after_create
      | Some cb \<Rightarrow>
          Invoke (newRex fd t1 t2) #
          (case cb (newRex fd t1 t2) of
             Returns \<Rightarrow> after_create
           | Throws \<Rightarrow> [ToastError ''Failed to create REX''])) @
     [SetIsSubmitting False]"
  by (simp add: handleSubmit_effects_def)

lemma validation_error_iff:
  "validation_error (handleSubmit_effects ocb t1 t2 fd) \<longleftrightarrow>
     QuickRexFormData.summary fd = [] \<or> QuickRexFormData.rootCause fd = []"
  by (auto simp: validation_error_def handleSubmit_effects_def)

lemma invocations_after_create: "invocations after_create = []"
  by (simp add: after_create_def)

lemma succeeded_iff:
  "succeeded (handleSubmit_effects ocb t1 t2 fd) \<longleftrightarrow>
     QuickRexFormData.summary fd \<noteq> [] \<and> QuickRexFormData.rootCause fd \<noteq> [] \<and>
     (case ocb of None \<Rightarrow> True | Some cb \<Rightarrow> cb (newRex fd t1 t2) = Returns)"
  by (auto simp: succeeded_def handleSubmit_effects_def after_create_def
      split: option.splits outcome.splits)

lemma invocations_append: "invocations (xs @ ys) = invocations xs @ invocations ys"
  by (induction xs rule: invocations.induct) simp_all

lemma invocations_handleSubmit:
  "invocations (handleSubmit_effects ocb t1 t2 fd) =
     (if QuickRexFormData.summary fd = [] \<or> QuickRexFormData.rootCause fd = [] then []
      else case ocb of None \<Rightarrow> [] | Some cb \<Rightarrow> [newRex fd t1 t2])"
  by (simp add: handleSubmit_effects_def invocations_append invocations_after_create
      split: option.split outcome.split)

lemma blank_form_fields:
  "QuickRexFormData.summary blank_form = '' ''" "QuickRexFormData.rootCause blank_form = ''X''"
  by (simp_all add: blank_form_def)

section \<open>Validation of a submission\<close>

text \<open>
  Claim C2 says that a submission (the specification's \<^verbatim>\<open>buildRecord\<close>) fails with the
  validation error whenever the summary or the root cause is empty or consists of white
  space only. The handler tests the two strings for truthiness and trims nothing: with a
  summary of one space and the root cause \<^verbatim>\<open>X\<close> the submission is not blocked, it
  succeeds and calls the callback with a record.
\<close>

theorem whitespace_summary_counterexample:
  "QuickRexFormData.summary blank_form = '' '' \<and>
   QuickRexFormData.rootCause blank_form = ''X'' \<and>
   \<not> validation_error (handleSubmit_effects (Some accepting) 5 6 blank_form) \<and>
   succeeded (handleSubmit_effects (Some accepting) 5 6 blank_form) \<and>
   invocations (handleSubmit_effects (Some accepting) 5 6 blank_form) = [newRex blank_form 5 6]"
  by (simp add: validation_error_iff succeeded_iff invocations_handleSubmit blank_form_fields
      accepting_def)

text \<open>
  Claim C2 as amended. A submission is blocked with the validation error if and only if
  the summary or the root cause is the empty string; in particular it is blocked for an
  empty summary with root cause \<^verbatim>\<open>X\<close> and for an empty root cause with summary
  \<^verbatim>\<open>X\<close>.
\<close>

theorem handleSubmit_validation:
  "(validation_error (handleSubmit_effects ocb t1 t2 fd) \<longleftrightarrow>
      QuickRexFormData.summary fd = [] \<or> QuickRexFormData.rootCause fd = []) \<and>
   validation_error (handleSubmit_effects ocb t1 t2
      (fd\<lparr>QuickRexFormData.summary := [], QuickRexFormData.rootCause := ''X''\<rparr>)) \<and>
   validation_error (handleSubmit_effects ocb t1 t2
      (fd\<lparr>QuickRexFormData.summary := ''X'', QuickRexFormData.rootCause := []\<rparr>))"
  by (simp add: validation_error_iff)

theorem handleSubmit_validation_witness:
  "validation_error (handleSubmit_effects None 5 6
      (filled_form\<lparr>QuickRexFormData.summary := [], QuickRexFormData.rootCause := ''X''\<rparr>)) \<and>
   \<not> validation_error (handleSubmit_effects None 5 6 filled_form)"
  using handleSubmit_validation [of None 5 6 filled_form]
  by (simp add: filled_form_def initialFormData_def)

section \<open>More facts about the submit handler\<close>

lemma filled_form_fields:
  "QuickRexFormData.summary filled_form = ''S''" "QuickRexFormData.rootCause filled_form = ''R''"
  by (simp_all add: filled_form_def)

lemma Invoke_in_effects:
  "Invoke r \<in> set effs \<longleftrightarrow> r \<in> set (invocations effs)"
  by (induction effs rule: invocations.induct) auto

lemma handleSubmit_effects_succeeded:
  "succeeded (handleSubmit_effects (Some cb) t_id t_created fd) \<Longrightarrow>
   handleSubmit_effects (Some cb) t_id t_created fd =
     [SetIsSubmitting True, Invoke (newRex fd t_id t_created),
      ToastSuccess ''REX created successfully!'', SetIsOpen False, SetFormData initialFormData,
      SetIsSubmitting False]"
  by (simp add: succeeded_iff handleSubmit_effects_valid after_create_def)

lemma snd_handleSubmit:
  "snd (handleSubmit ocb t_id t_created st) = handleSubmit_effects ocb t_id t_created (formData st)"
  by (simp add: handleSubmit_def Let_def)

lemma fst_handleSubmit:
  "fst (handleSubmit ocb t_id t_created st) =
     foldl apply_effect st (handleSubmit_effects ocb t_id t_created (formData st))"
  by (simp add: handleSubmit_def Let_def)

text \<open>
  A dialog without callback whose form has a summary and a root cause succeeds, calls
  nothing and ends closed.
\<close>

lemma handleSubmit_without_callback:
  assumes "QuickRexFormData.summary (formData st) \<noteq> []"
    and "QuickRexFormData.rootCause (formData st) \<noteq> []"
  shows "succeeded (snd (handleSubmit None t_id t_created st)) \<and>
    invocations (snd (handleSubmit None t_id t_created st)) = [] \<and>
    \<not> isOpen (fst (handleSubmit None t_id t_created st))"
proof -
  have "succeeded (snd (handleSubmit None t_id t_created st))"
    using assms by (simp add: snd_handleSubmit succeeded_iff)
  moreover have "invocations (snd (handleSubmit None t_id t_created st)) = []"
    by (simp add: snd_handleSubmit invocations_handleSubmit)
  moreover have "\<not> isOpen (fst (handleSubmit None t_id t_created st))"
    using assms by (simp add: fst_handleSubmit handleSubmit_effects_valid after_create_def)
  ultimately show ?thesis
    by simp
qed

section \<open>The record of a submission\<close>

text \<open>
  Claim C4 says that the record built from a form with a summary and a root cause has,
  among others, a \<^verbatim>\<open>createdBy\<close> equal to the current-user identifier the caller
  supplies. The handler takes no such identifier: it writes the constant
  \<^verbatim>\<open>"Current User"\<close>, so for the caller \<^verbatim>\<open>alice\<close> the record handed to the callback does
  not name her. The same submission shows the two readings of the clock: when
  \<^verbatim>\<open>Date.now()\<close> returns 5 and the \<^verbatim>\<open>new Date()\<close> after it reads 6, the id is \<^verbatim>\<open>rex_5\<close>
  and the creation date is 6.
\<close>

theorem created_by_counterexample:
  "invocations (handleSubmit_effects (Some accepting) 5 6 filled_form) = [newRex filled_form 5 6] \<and>
   createdBy (newRex filled_form 5 6) = ''Current User'' \<and>
   createdBy (newRex filled_form 5 6) \<noteq> ''alice'' \<and>
   rex_id (newRex filled_form 5 6) = ''rex_5'' \<and>
   createdAt (newRex filled_form 5 6) = DateAt 6"
  by (simp add: invocations_handleSubmit filled_form_fields)
    (simp add: newRex_def number_to_string_def nat_to_string.simps)

text \<open>
  Claim C4 as amended. The handler reads the clock twice: \<open>t_id\<close> is what \<^verbatim>\<open>Date.now()\<close>
  returns and \<open>t_created\<close> the time value of the \<^verbatim>\<open>new Date()\<close> made after it. When the
  summary and the root cause are not empty, the submission is not blocked and the record
  it builds, the only one the callback can be called with, has no attachments, the
  creation date \<open>t_created\<close>, the id \<^verbatim>\<open>rex_\<close> followed by the decimal digits of \<open>t_id\<close>
  (so the id begins with \<^verbatim>\<open>rex_\<close>), the author \<^verbatim>\<open>Current User\<close>, and the summary and root
  cause of the form.
\<close>

theorem handleSubmit_newRex:
  assumes "QuickRexFormData.summary fd \<noteq> []" and "QuickRexFormData.rootCause fd \<noteq> []"
  shows "\<not> validation_error (handleSubmit_effects ocb t_id t_created fd) \<and>
    invocations (handleSubmit_effects (Some cb) t_id t_created fd) = [newRex fd t_id t_created] \<and>
    (\<forall>r. Invoke r \<in> set (handleSubmit_effects ocb t_id t_created fd) \<longrightarrow>
       r = newRex fd t_id t_created) \<and>
    attachments (newRex fd t_id t_created) = [] \<and>
    createdAt (newRex fd t_id t_created) = DateAt t_created \<and>
    rex_id (newRex fd t_id t_created) = ''rex_'' @ number_to_string t_id \<and>
    prefix ''rex_'' (rex_id (newRex fd t_id t_created)) \<and>
    createdBy (newRex fd t_id t_created) = ''Current User'' \<and>
    summary (newRex fd t_id t_created) = QuickRexFormData.summary fd \<and>
    rootCause (newRex fd t_id t_created) = QuickRexFormData.rootCause fd"
proof -
  have "\<not> validation_error (handleSubmit_effects ocb t_id t_created fd)"
    using assms by (simp add: validation_error_iff)
  moreover have "invocations (handleSubmit_effects (Some cb) t_id t_created fd) =
      [newRex fd t_id t_created]"
    using assms by (simp add: invocations_handleSubmit)
  moreover have "\<forall>r. Invoke r \<in> set (handleSubmit_effects ocb t_id t_created fd) \<longrightarrow>
       r = newRex fd t_id t_created"
    using assms by (simp add: Invoke_in_effects invocations_handleSubmit split: option.split)
  ultimately show ?thesis
    by (simp add: newRex_def)
qed

text \<open>
  The form with summary \<^verbatim>\<open>S\<close> and root cause \<^verbatim>\<open>R\<close>, with two readings of the clock
  one millisecond apart.
\<close>

theorem handleSubmit_newRex_witness:
  "invocations (handleSubmit_effects (Some accepting) 1720000000123 1720000000124 filled_form) =
     [newRex filled_form 1720000000123 1720000000124] \<and>
   rex_id (newRex filled_form 1720000000123 1720000000124) = ''rex_1720000000123'' \<and>
   createdAt (newRex filled_form 1720000000123 1720000000124) = DateAt 1720000000124 \<and>
   attachments (newRex filled_form 1720000000123 1720000000124) = [] \<and>
   createdBy (newRex filled_form 1720000000123 1720000000124) = ''Current User''"
  using handleSubmit_newRex [of filled_form "Some accepting" 1720000000123 1720000000124 accepting]
  by (simp add: filled_form_fields number_to_string_def nat_to_string.simps)

section \<open>A blocked submission changes nothing\<close>

text \<open>
  Claim C5. When the summary or the root cause of the form is empty, the handler returns
  the state it was given: the form data, the open flag of the dialog and the submitting
  flag are unchanged. Its only effect is the validation toast, and the callback is not
  called.
\<close>

theorem handleSubmit_blocked:
  assumes "QuickRexFormData.summary (formData st) = [] \<or>
           QuickRexFormData.rootCause (formData st) = []"
  shows "handleSubmit ocb t_id t_created st = (st, [ToastError validation_message]) \<and>
    validation_error (snd (handleSubmit ocb t_id t_created st)) \<and>
    formData (fst (handleSubmit ocb t_id t_created st)) = formData st \<and>
    isOpen (fst (handleSubmit ocb t_id t_created st)) = isOpen st \<and>
    isSubmitting (fst (handleSubmit ocb t_id t_created st)) = isSubmitting st \<and>
    invocations (snd (handleSubmit ocb t_id t_created st)) = []"
proof -
  have "handleSubmit ocb t_id t_created st = (st, [ToastError validation_message])"
    using assms by (simp add: handleSubmit_def handleSubmit_effects_blocked)
  then show ?thesis
    by (simp add: validation_error_def)
qed

text \<open>An open dialog whose form has a summary and no root cause stays open.\<close>

theorem handleSubmit_blocked_witness:
  "handleSubmit (Some accepting) 5 6 (open_dialog (filled_form\<lparr>QuickRexFormData.rootCause := []\<rparr>)) =
     (open_dialog (filled_form\<lparr>QuickRexFormData.rootCause := []\<rparr>), [ToastError validation_message]) \<and>
   isOpen (fst (handleSubmit (Some accepting) 5 6
     (open_dialog (filled_form\<lparr>QuickRexFormData.rootCause := []\<rparr>))))"
  using handleSubmit_blocked [of "open_dialog (filled_form\<lparr>QuickRexFormData.rootCause := []\<rparr>)"
      "Some accepting" 5 6]
  by (simp add: open_dialog_def)

section \<open>The call of the callback\<close>

text \<open>
  Claim C9 says that every successful submission calls \<^verbatim>\<open>onRexCreated\<close> exactly once.
  The callback is optional and the handler calls it through \<^verbatim>\<open>?.\<close>: a dialog that got no
  callback, as the one inside the opportunity banner, shows the success toast and closes
  without any call.
\<close>

theorem no_callback_counterexample:
  "succeeded (snd (handleSubmit None 5 6 (open_dialog filled_form))) \<and>
   invocations (snd (handleSubmit None 5 6 (open_dialog filled_form))) = [] \<and>
   \<not> isOpen (fst (handleSubmit None 5 6 (open_dialog filled_form)))"
proof -
  have fd: "formData (open_dialog filled_form) = filled_form"
    by (simp add: open_dialog_def)
  have "succeeded (snd (handleSubmit None 5 6 (open_dialog filled_form)))"
    by (simp add: snd_handleSubmit succeeded_iff fd filled_form_fields)
  moreover have "invocations (snd (handleSubmit None 5 6 (open_dialog filled_form))) = []"
    by (simp add: snd_handleSubmit invocations_handleSubmit)
  moreover have "\<not> isOpen (fst (handleSubmit None 5 6 (open_dialog filled_form)))"
    by (simp add: fst_handleSubmit fd handleSubmit_effects_valid filled_form_fields
        after_create_def)
  ultimately show ?thesis
    by simp
qed

text \<open>
  Claim C9 as amended. A successful submission of a dialog that has a callback performs,
  in this order: the submitting flag is set, the callback is called with the new record,
  the success toast is shown, the dialog is closed, the form is reset, the submitting flag
  is cleared. So the callback is called exactly once, with the new record, within the run
  of the handler and before the dialog is closed, and the dialog ends closed. A dialog
  without callback calls nothing, and a blocked submission calls nothing.
\<close>

theorem onRexCreated_once:
  "(succeeded (snd (handleSubmit (Some cb) t_id t_created st)) \<longrightarrow>
      snd (handleSubmit (Some cb) t_id t_created st) =
        [SetIsSubmitting True, Invoke (newRex (formData st) t_id t_created),
         ToastSuccess ''REX created successfully!'', SetIsOpen False,
         SetFormData initialFormData, SetIsSubmitting False] \<and>
      invocations (snd (handleSubmit (Some cb) t_id t_created st)) =
        [newRex (formData st) t_id t_created] \<and>
      (\<exists>pre post.
         snd (handleSubmit (Some cb) t_id t_created st) =
           pre @ Invoke (newRex (formData st) t_id t_created) # post \<and>
         SetIsOpen False \<notin> set pre \<and> SetIsOpen False \<in> set post) \<and>
      \<not> isOpen (fst (handleSubmit (Some cb) t_id t_created st))) \<and>
   invocations (snd (handleSubmit None t_id t_created st)) = [] \<and>
   (validation_error (snd (handleSubmit ocb t_id t_created st)) \<longrightarrow>
      invocations (snd (handleSubmit ocb t_id t_created st)) = [])"
proof (intro conjI impI)
  show "invocations (snd (handleSubmit None t_id t_created st)) = []"
    by (simp add: snd_handleSubmit invocations_handleSubmit)
next
  assume "validation_error (snd (handleSubmit ocb t_id t_created st))"
  then show "invocations (snd (handleSubmit ocb t_id t_created st)) = []"
    by (simp add: snd_handleSubmit validation_error_iff invocations_handleSubmit)
next
  assume "succeeded (snd (handleSubmit (Some cb) t_id t_created st))"
  then have effs: "handleSubmit_effects (Some cb) t_id t_created (formData st) =
     [SetIsSubmitting True, Invoke (newRex (formData st) t_id t_created),
      ToastSuccess ''REX created successfully!'', SetIsOpen False, SetFormData initialFormData,
      SetIsSubmitting False]"
    by (intro handleSubmit_effects_succeeded) (simp add: snd_handleSubmit)
  show "snd (handleSubmit (Some cb) t_id t_created st) =
        [SetIsSubmitting True, Invoke (newRex (formData st) t_id t_created),
         ToastSuccess ''REX created successfully!'', SetIsOpen False,
         SetFormData initialFormData, SetIsSubmitting False]"
    by (simp add: snd_handleSubmit effs)
  show "invocations (snd (handleSubmit (Some cb) t_id t_created st)) =
        [newRex (formData st) t_id t_created]"
    by (simp add: snd_handleSubmit effs)
  show "\<not> isOpen (fst (handleSubmit (Some cb) t_id t_created st))"
    by (simp add: fst_handleSubmit effs)
  have "snd (handleSubmit (Some cb) t_id t_created st) =
      [SetIsSubmitting True] @ Invoke (newRex (formData st) t_id t_created) #
      [ToastSuccess ''REX created successfully!'', SetIsOpen False,
       SetFormData initialFormData, SetIsSubmitting False] \<and>
    SetIsOpen False \<notin> set [SetIsSubmitting True] \<and>
    SetIsOpen False \<in> set [ToastSuccess ''REX created successfully!'', SetIsOpen False,
       SetFormData initialFormData, SetIsSubmitting False]"
    by (simp add: snd_handleSubmit effs)
  then show "\<exists>pre post.
         snd (handleSubmit (Some cb) t_id t_created st) =
           pre @ Invoke (newRex (formData st) t_id t_created) # post \<and>
         SetIsOpen False \<notin> set pre \<and> SetIsOpen False \<in> set post"
    by blast
qed

text \<open>
  The open dialog with the filled form and a callback that returns; the same dialog with
  the initial, empty form.
\<close>

theorem onRexCreated_once_witness:
  "succeeded (snd (handleSubmit (Some accepting) 5 6 (open_dialog filled_form))) \<and>
   invocations (snd (handleSubmit (Some accepting) 5 6 (open_dialog filled_form))) =
     [newRex filled_form 5 6] \<and>
   \<not> isOpen (fst (handleSubmit (Some accepting) 5 6 (open_dialog filled_form))) \<and>
   invocations (snd (handleSubmit (Some accepting) 5 6 (open_dialog initialFormData))) = []"
proof -
  have s: "succeeded (snd (handleSubmit (Some accepting) 5 6 (open_dialog filled_form)))"
    by (simp add: snd_handleSubmit succeeded_iff open_dialog_def filled_form_fields accepting_def)
  have v: "validation_error (snd (handleSubmit (Some accepting) 5 6 (open_dialog initialFormData)))"
    by (simp add: snd_handleSubmit validation_error_iff open_dialog_def initialFormData_def)
  show ?thesis
    using s v onRexCreated_once [of accepting 5 6 "open_dialog filled_form"]
      onRexCreated_once [of accepting 5 6 "open_dialog initialFormData" "Some accepting"]
    by (simp add: open_dialog_def)
qed

section \<open>The filter keeps the order and changes nothing\<close>

lemma subseq_windowRexRecords: "subseq (windowRexRecords recs w) recs"
  by (simp add: windowRexRecords_def)

text \<open>
  Claim C7. The filtered list is a subsequence of the input list: the records it keeps
  stand in their original order, and it is the input list restricted to the records it
  keeps. On a store that holds the record array and the window, the filter returns a new
  array at an address that is neither the array's nor the window's, and every cell the
  store had before, the record array and the window among them, holds what it held.
\<close>

theorem windowRexRecords_preserves:
  assumes "recs_ref < length h" and "window_ref < length h"
    and "h ! recs_ref = RexArray recs" and "h ! window_ref = WindowObject w"
  shows "subseq (windowRexRecords recs w) recs \<and>
    windowRexRecords recs w = filter (\<lambda>r. r \<in> set (windowRexRecords recs w)) recs \<and>
    (\<exists>h' out_ref.
       windowRexRecords_store h recs_ref window_ref = Some (h', out_ref) \<and>
       h' ! out_ref = RexArray (windowRexRecords recs w) \<and>
       out_ref \<noteq> recs_ref \<and> out_ref \<noteq> window_ref \<and>
       h' ! recs_ref = RexArray recs \<and> h' ! window_ref = WindowObject w \<and>
       (\<forall>a < length h. h' ! a = h ! a))"
proof -
  have "windowRexRecords recs w = filter (\<lambda>r. r \<in> set (windowRexRecords recs w)) recs"
    unfolding windowRexRecords_def by (rule filter_cong) auto
  moreover have "windowRexRecords_store h recs_ref window_ref =
      Some (h @ [RexArray (windowRexRecords recs w)], length h)"
    using assms by (simp add: windowRexRecords_store_def)
  ultimately show ?thesis
    using assms by (simp add: subseq_windowRexRecords nth_append)
qed

text \<open>
  On the store of two records and the window with id 42: the result holds the one record
  whose summary contains the title, and the array and the window are as they were.
\<close>

theorem windowRexRecords_preserves_witness:
  "subseq [late_rex] [late_rex, valve_rex] \<and>
   (\<exists>h' out_ref.
      windowRexRecords_store two_record_store 0 1 = Some (h', out_ref) \<and>
      h' ! out_ref = RexArray [late_rex] \<and>
      h' ! 0 = RexArray [late_rex, valve_rex] \<and>
      h' ! 1 = WindowObject pump_window)"
proof -
  have "windowRexRecords [late_rex, valve_rex] pump_window = [late_rex]"
    by (simp add: windowRexRecords_def late_rex_fields valve_rex_fields pump_window_def)
  then show ?thesis
    using windowRexRecords_preserves [of 0 two_record_store 1 "[late_rex, valve_rex]" pump_window]
    by (auto simp: two_record_store_def)
qed

section \<open>The record store of the component stays empty\<close>

lemma integration_step_rexRecords:
  "rexRecords (integration_step w onRexCreated s a) = rexRecords s"
  by (cases a) simp_all

lemma reachable_rexRecords: "reachable s \<Longrightarrow> rexRecords s = []"
  by (induction rule: reachable.induct)
    (simp_all add: initial_state_def integration_step_rexRecords)

lemma reachable_foldl:
  "reachable s \<Longrightarrow> reachable (foldl (integration_step w onRexCreated) s as)"
  by (induction as arbitrary: s) (simp_all add: reachable_step)

lemma reachable_after_submission: "reachable after_submission"
  unfolding after_submission_def before_submission_def
  by (intro reachable_step reachable_foldl reachable_init)

lemma before_submission_dialog:
  "actionsDialog before_submission =
     open_dialog (initialFormData\<lparr>QuickRexFormData.summary := ''Pump overhaul'',
       QuickRexFormData.rootCause := ''R''\<rparr>)"
  by (simp add: before_submission_def initial_state_def initial_dialog_def dialog_step_def
      open_dialog_def)

text \<open>
  Claim C10. The record store of the component starts as the empty list and no handler
  changes it: a submission, also a successful one, touches the dialog and the callback
  only. So in every state the component can reach the store is empty, and for every
  window the count handed to the summary card is 0 and the last date is absent.
\<close>

theorem RexIntegration_no_records:
  "rexRecords initial_state = [] \<and>
   rexRecords (integration_step w' onRexCreated s' a) = rexRecords s' \<and>
   (reachable s \<longrightarrow>
      rexRecords s = [] \<and>
      rexCount (RexIntegration w isCompleted now s) = 0 \<and>
      summaryLastRexDate (RexIntegration w isCompleted now s) = None)"
  by (simp add: integration_step_rexRecords reachable_rexRecords RexIntegration_def
      windowRexRecords_def lastRexDate_def) (simp add: initial_state_def)

text \<open>
  After a successful submission whose summary is the title of the window, the store is
  still empty and the card shows 0 records and no date.
\<close>

theorem RexIntegration_no_records_witness:
  "succeeded (dialog_effects pump_window (Some accepting) (actionsDialog before_submission)
      (Submit 5 6)) \<and>
   rexRecords after_submission = [] \<and>
   rexCount (RexIntegration pump_window (Some True) 3000 after_submission) = 0 \<and>
   summaryLastRexDate (RexIntegration pump_window (Some True) 3000 after_submission) = None"
proof -
  have "succeeded (dialog_effects pump_window (Some accepting) (actionsDialog before_submission)
      (Submit 5 6))"
    by (simp add: before_submission_dialog open_dialog_def succeeded_iff accepting_def)
  then show ?thesis
    using reachable_after_submission
      RexIntegration_no_records [of pump_window "Some accepting" before_submission
        "InActions (Submit 5 6)" after_submission pump_window "Some True" 3000]
    by simp
qed

end
